theory Spec2Isabelle
  imports Main "HOL-Library.Word"
begin

unbundle bit_operations_syntax

section \<open>Values of the Go program\<close>

text \<open>
  The package \<^verbatim>\<open>gin_jwks\<close> is one file: a configuration builder (\<^verbatim>\<open>Build\<close>) and an
  HTTP handler (\<^verbatim>\<open>Jkws\<close>). A Go \<^verbatim>\<open>error\<close> is modelled by its message, a \<^verbatim>\<open>[]byte\<close> by a
  list of 8-bit words, a run-time panic by a value of \<open>panic\<close>: a function that can panic
  returns \<open>panic + 'a\<close>.
\<close>

type_synonym byte = "8 word"

type_synonym error = string

datatype panic = NilDereference | TypeAssertion

subsection \<open>The key object of the jwx library\<close>

text \<open>
  \<^verbatim>\<open>jwk.Key\<close> is an interface of the library \<^verbatim>\<open>lestrrat-go/jwx\<close>, which is not part of the
  repository. A key is modelled by what the methods called in the source return on it, so
  every theorem below holds for whatever the library answers:
  \<^item> \<open>GoType\<close>: the dynamic type as \<^verbatim>\<open>%T\<close> prints it;
  \<^item> \<open>RSAPrivateKey\<close>: whether the type assertion \<^verbatim>\<open>key.(jwk.RSAPrivateKey)\<close> succeeds;
  \<^item> \<open>PublicKey\<close>: the result of \<^verbatim>\<open>key.PublicKey()\<close>, an error or the public key;
  \<^item> \<open>field\<close>: the named fields, read by \<^verbatim>\<open>key.Get(name)\<close>;
  \<^item> \<open>Set_error\<close>: the error, if any, with which \<^verbatim>\<open>key.Set(name, value)\<close> rejects a value.
  A value of type \<^verbatim>\<open>interface{}\<close> held by a field is a byte slice or a string.
\<close>

datatype any = Bytes "byte list" | Str string

record jwk_PublicKey =
  KeyType_String :: string

record jwk_Key =
  GoType :: string
  RSAPrivateKey :: bool
  PublicKey :: "error + jwk_PublicKey"
  field :: "string \<rightharpoonup> any"
  Set_error :: "string \<Rightarrow> any \<Rightarrow> error option"

definition jwk_KeyIDKey :: string where
  "jwk_KeyIDKey = ''kid''"

definition jwk_KeyUsageKey :: string where
  "jwk_KeyUsageKey = ''use''"

text \<open>\<^verbatim>\<open>key.Get(name)\<close> returns \<^verbatim>\<open>(value, ok)\<close>; \<open>None\<close> stands for \<^verbatim>\<open>(nil, false)\<close>.\<close>

definition Get :: "jwk_Key \<Rightarrow> string \<Rightarrow> any option" where
  "Get k name = field k name"

text \<open>\<^verbatim>\<open>key.KeyID()\<close> and \<^verbatim>\<open>key.KeyUsage()\<close> read the fields \<^verbatim>\<open>kid\<close> and \<^verbatim>\<open>use\<close>, the empty
  string when the field is not set.\<close>

definition KeyID :: "jwk_Key \<Rightarrow> string" where
  "KeyID k = (case field k jwk_KeyIDKey of Some (Str s) \<Rightarrow> s | _ \<Rightarrow> [])"

definition KeyUsage :: "jwk_Key \<Rightarrow> string" where
  "KeyUsage k = (case field k jwk_KeyUsageKey of Some (Str s) \<Rightarrow> s | _ \<Rightarrow> [])"

text \<open>\<^verbatim>\<open>key.Set(name, value)\<close> mutates the key and returns an error or nil: the model returns
  the error and the key after the call.\<close>

definition Set :: "jwk_Key \<Rightarrow> string \<Rightarrow> any \<Rightarrow> error option \<times> jwk_Key" where
  "Set k name v =
     (case Set_error k name v of
        Some err \<Rightarrow> (Some err, k)
      | None \<Rightarrow> (None, k\<lparr>field := (field k)(name \<mapsto> v)\<rparr>))"

subsection \<open>The environment of \<^verbatim>\<open>Build\<close>\<close>

text \<open>
  What the random source, the file system and the library's constructors answer is a
  parameter of the model: \<^verbatim>\<open>rsa.GenerateKey(rand.Reader, bits)\<close>, \<^verbatim>\<open>jwk.FromRaw\<close>,
  \<^verbatim>\<open>ioutil.ReadFile\<close> and \<^verbatim>\<open>jwk.ParseKey(data, jwk.WithPEM(true))\<close>. Each returns an error
  (\<open>Inl\<close>) or a value; \<open>'raw\<close> is the type of raw RSA keys.
\<close>

record 'raw env =
  rsa_GenerateKey :: "int \<Rightarrow> error + 'raw"
  jwk_FromRaw :: "'raw \<Rightarrow> error + jwk_Key"
  ioutil_ReadFile :: "string \<Rightarrow> error + byte list"
  jwk_ParseKey :: "byte list \<Rightarrow> error + jwk_Key"

section \<open>The configuration and its builder\<close>

definition KeyUsageAsSignature :: string where
  "KeyUsageAsSignature = ''sig''"

record NewKeyOptions =
  keyId :: string
  bits :: int

record ImportKeyOptions =
  keyId :: string
  privateKeyPemPath :: string

text \<open>The interface \<^verbatim>\<open>Options\<close> has the two option structs as its implementations.\<close>

datatype Options = NewOpts NewKeyOptions | ImportOpts ImportKeyOptions

fun KeyId :: "Options \<Rightarrow> string" where
  "KeyId (NewOpts o1) = NewKeyOptions.keyId o1"
| "KeyId (ImportOpts o1) = ImportKeyOptions.keyId o1"

text \<open>The three fields of \<^verbatim>\<open>Config\<close> are pointers; \<open>None\<close> is \<^verbatim>\<open>nil\<close>.\<close>

record Config =
  key :: "jwk_Key option"
  newPkOpts :: "NewKeyOptions option"
  importPkOpts :: "ImportKeyOptions option"

text \<open>
  A builder holds a pointer to its \<^verbatim>\<open>Config\<close>, and the two facets embed a copy of the
  builder, so a builder and all the facets made from it share one \<^verbatim>\<open>Config\<close>. The
  \<^verbatim>\<open>Config\<close> objects live in a store, a list indexed by address.
\<close>

type_synonym heap = "Config list"

record ConfigBuilder =
  config :: "nat option"

datatype ConfigNewKeyBuilder = ConfigNewKeyBuilder ConfigBuilder

datatype ConfigImportKeyBuilder = ConfigImportKeyBuilder ConfigBuilder

text \<open>Reading through a \<^verbatim>\<open>*Config\<close>: the address and the object, or nothing for \<^verbatim>\<open>nil\<close>.\<close>

definition deref :: "heap \<Rightarrow> nat option \<Rightarrow> (nat \<times> Config) option" where
  "deref h p =
     (case p of
        None \<Rightarrow> None
      | Some a \<Rightarrow> if a < length h then Some (a, h ! a) else None)"

definition NewPrivateKey :: "ConfigBuilder \<Rightarrow> ConfigNewKeyBuilder" where
  "NewPrivateKey n = ConfigNewKeyBuilder n"

definition ImportPrivateKey :: "ConfigBuilder \<Rightarrow> ConfigImportKeyBuilder" where
  "ImportPrivateKey n = ConfigImportKeyBuilder n"

definition NewConfigBuilder :: "heap \<Rightarrow> ConfigBuilder \<times> heap" where
  "NewConfigBuilder h =
     (\<lparr>config = Some (length h)\<rparr>,
      h @ [\<lparr>key = None, newPkOpts = None, importPkOpts = None\<rparr>])"

fun initiateImportOptsIfNil :: "ConfigImportKeyBuilder \<Rightarrow> heap \<Rightarrow> panic + heap" where
  "initiateImportOptsIfNil (ConfigImportKeyBuilder n) h =
     (case deref h (config n) of
        None \<Rightarrow> Inl NilDereference
      | Some (a, c) \<Rightarrow>
          if importPkOpts c = None
          then Inr (h[a := c\<lparr>importPkOpts :=
                   Some \<lparr>ImportKeyOptions.keyId = [], privateKeyPemPath = []\<rparr>\<rparr>])
          else Inr h)"

fun WithPath ::
  "string \<Rightarrow> ConfigImportKeyBuilder \<Rightarrow> heap \<Rightarrow> panic + (ConfigImportKeyBuilder \<times> heap)" where
  "WithPath path (ConfigImportKeyBuilder n) h =
     (case initiateImportOptsIfNil (ConfigImportKeyBuilder n) h of
        Inl p \<Rightarrow> Inl p
      | Inr h1 \<Rightarrow>
          (case deref h1 (config n) of
             None \<Rightarrow> Inl NilDereference
           | Some (a, c) \<Rightarrow>
               (case importPkOpts c of
                  None \<Rightarrow> Inl NilDereference
                | Some opts \<Rightarrow>
                    Inr (ConfigImportKeyBuilder n,
                         h1[a := c\<lparr>importPkOpts :=
                              Some (opts\<lparr>privateKeyPemPath := path\<rparr>)\<rparr>]))))"

fun Import_WithKeyId ::
  "string \<Rightarrow> ConfigImportKeyBuilder \<Rightarrow> heap \<Rightarrow> panic + (ConfigImportKeyBuilder \<times> heap)" where
  "Import_WithKeyId kid (ConfigImportKeyBuilder n) h =
     (case initiateImportOptsIfNil (ConfigImportKeyBuilder n) h of
        Inl p \<Rightarrow> Inl p
      | Inr h1 \<Rightarrow>
          (case deref h1 (config n) of
             None \<Rightarrow> Inl NilDereference
           | Some (a, c) \<Rightarrow>
               (case importPkOpts c of
                  None \<Rightarrow> Inl NilDereference
                | Some opts \<Rightarrow>
                    Inr (ConfigImportKeyBuilder n,
                         h1[a := c\<lparr>importPkOpts :=
                              Some (opts\<lparr>ImportKeyOptions.keyId := kid\<rparr>)\<rparr>]))))"

fun initiateNewOptsIfNil :: "ConfigNewKeyBuilder \<Rightarrow> heap \<Rightarrow> panic + heap" where
  "initiateNewOptsIfNil (ConfigNewKeyBuilder n) h =
     (case deref h (config n) of
        None \<Rightarrow> Inl NilDereference
      | Some (a, c) \<Rightarrow>
          if newPkOpts c = None
          then Inr (h[a := c\<lparr>newPkOpts := Some \<lparr>NewKeyOptions.keyId = [], bits = 0\<rparr>\<rparr>])
          else Inr h)"

fun WithKeyLength ::
  "int \<Rightarrow> ConfigNewKeyBuilder \<Rightarrow> heap \<Rightarrow> panic + (ConfigNewKeyBuilder \<times> heap)" where
  "WithKeyLength n_bits (ConfigNewKeyBuilder n) h =
     (case initiateNewOptsIfNil (ConfigNewKeyBuilder n) h of
        Inl p \<Rightarrow> Inl p
      | Inr h1 \<Rightarrow>
          (case deref h1 (config n) of
             None \<Rightarrow> Inl NilDereference
           | Some (a, c) \<Rightarrow>
               (case newPkOpts c of
                  None \<Rightarrow> Inl NilDereference
                | Some opts \<Rightarrow>
                    Inr (ConfigNewKeyBuilder n,
                         h1[a := c\<lparr>newPkOpts := Some (opts\<lparr>bits := n_bits\<rparr>)\<rparr>]))))"

fun New_WithKeyId ::
  "string \<Rightarrow> ConfigNewKeyBuilder \<Rightarrow> heap \<Rightarrow> panic + (ConfigNewKeyBuilder \<times> heap)" where
  "New_WithKeyId kid (ConfigNewKeyBuilder n) h =
     (case initiateNewOptsIfNil (ConfigNewKeyBuilder n) h of
        Inl p \<Rightarrow> Inl p
      | Inr h1 \<Rightarrow>
          (case deref h1 (config n) of
             None \<Rightarrow> Inl NilDereference
           | Some (a, c) \<Rightarrow>
               (case newPkOpts c of
                  None \<Rightarrow> Inl NilDereference
                | Some opts \<Rightarrow>
                    Inr (ConfigNewKeyBuilder n,
                         h1[a := c\<lparr>newPkOpts :=
                              Some (opts\<lparr>NewKeyOptions.keyId := kid\<rparr>)\<rparr>]))))"

subsection \<open>Generating and importing the private key\<close>

definition generatePrivateKey :: "'raw env \<Rightarrow> NewKeyOptions \<Rightarrow> error + jwk_Key" where
  "generatePrivateKey env opts =
     (case rsa_GenerateKey env (bits opts) of
        Inl err \<Rightarrow> Inl (''failed to generate new RSA private key: '' @ err @ [CHR 0x0A])
      | Inr rawPrivateKey \<Rightarrow>
          (case jwk_FromRaw env rawPrivateKey of
             Inl err \<Rightarrow> Inl (''failed to create symmetric key: '' @ err @ [CHR 0x0A])
           | Inr k \<Rightarrow> Inr k))"

definition importPrivateKey :: "'raw env \<Rightarrow> ImportKeyOptions \<Rightarrow> error + jwk_Key" where
  "importPrivateKey env opts =
     (case ioutil_ReadFile env (privateKeyPemPath opts) of
        Inl err \<Rightarrow> Inl (''cannot read private key '' @ err)
      | Inr keyData \<Rightarrow>
          (case jwk_ParseKey env keyData of
             Inl err \<Rightarrow> Inl (''cannot parse private key '' @ err)
           | Inr k \<Rightarrow> Inr k))"

subsection \<open>\<^verbatim>\<open>Build\<close>\<close>

text \<open>
  \<^verbatim>\<open>Build\<close> returns \<^verbatim>\<open>(*Config, error)\<close> and may assign \<^verbatim>\<open>b.config.key\<close>: the model returns the
  pointer (\<open>None\<close> for \<^verbatim>\<open>nil\<close>), the error (\<open>None\<close> for \<^verbatim>\<open>nil\<close>) and the store after the call.
  The body is the source's sequence of blocks, each with its early return:
  \<open>Build_generate\<close> is the block "generate a new private key", \<open>Build_import\<close> the block
  "import the private key", both working on the local variables \<^verbatim>\<open>key\<close> and \<^verbatim>\<open>opts\<close>, and
  \<open>Build_finish\<close> is the rest of the body, from the test \<^verbatim>\<open>key == nil\<close> on.
\<close>

type_synonym locals = "jwk_Key option \<times> Options option"

definition Build_generate :: "'raw env \<Rightarrow> Config \<Rightarrow> locals \<Rightarrow> error + locals" where
  "Build_generate env c l =
     (case newPkOpts c of
        None \<Rightarrow> Inr l
      | Some opts \<Rightarrow>
          (case generatePrivateKey env opts of
             Inl err \<Rightarrow> Inl (''cannot generate new private key '' @ err)
           | Inr k \<Rightarrow> Inr (Some k, Some (NewOpts opts))))"

definition Build_import :: "'raw env \<Rightarrow> Config \<Rightarrow> locals \<Rightarrow> error + locals" where
  "Build_import env c l =
     (case importPkOpts c of
        None \<Rightarrow> Inr l
      | Some opts \<Rightarrow>
          (case importPrivateKey env opts of
             Inl err \<Rightarrow> Inl (''cannot import private key '' @ err)
           | Inr k \<Rightarrow> Inr (Some k, Some (ImportOpts opts))))"

definition Build_finish ::
  "nat \<Rightarrow> Config \<Rightarrow> heap \<Rightarrow> locals \<Rightarrow> panic + ((nat option \<times> error option) \<times> heap)" where
  "Build_finish a c h l =
     (case fst l of
        None \<Rightarrow> Inr ((None, Some ''generate or import a private key''), h)
      | Some k0 \<Rightarrow>
          (case snd l of
             None \<Rightarrow> Inl NilDereference
           | Some opts \<Rightarrow>
               (case Set k0 jwk_KeyIDKey (Str (KeyId opts)) of
                  (Some err, _) \<Rightarrow>
                    Inr ((None, Some (''cannot add an id property to the private key '' @ err)), h)
                | (None, k1) \<Rightarrow>
                    (case Set k1 jwk_KeyUsageKey (Str KeyUsageAsSignature) of
                       (Some err, _) \<Rightarrow>
                         Inr ((None,
                               Some (''cannot add an id property to the private key '' @ err)), h)
                     | (None, k2) \<Rightarrow>
                         if \<not> RSAPrivateKey k2
                         then Inr ((None,
                                    Some (''expected jwk.SymmetricKey, got '' @ GoType k2)), h)
                         else
                           (case PublicKey k2 of
                              Inl err \<Rightarrow>
                                Inr ((None, Some (''failed to create public key '' @ err)), h)
                            | Inr _ \<Rightarrow>
                                Inr ((Some a, None), h[a := c\<lparr>key := Some k2\<rparr>]))))))"

definition Build ::
  "'raw env \<Rightarrow> ConfigBuilder \<Rightarrow> heap \<Rightarrow> panic + ((nat option \<times> error option) \<times> heap)" where
  "Build env b h =
     (case deref h (config b) of
        None \<Rightarrow> Inl NilDereference
      | Some (a, c) \<Rightarrow>
          if newPkOpts c \<noteq> None \<and> importPkOpts c \<noteq> None
          then Inr ((None, Some ''cannot import and generate a new private key''), h)
          else
            (case Build_generate env c (None, None) of
               Inl err \<Rightarrow> Inr ((None, Some err), h)
             | Inr l1 \<Rightarrow>
                 (case Build_import env c l1 of
                    Inl err \<Rightarrow> Inr ((None, Some err), h)
                  | Inr l2 \<Rightarrow> Build_finish a c h l2)))"

section \<open>The handler\<close>

subsection \<open>\<^verbatim>\<open>EncodeToString\<close>: base64url without padding\<close>

text \<open>
  \<^verbatim>\<open>EncodeToString\<close> calls \<^verbatim>\<open>base64.RawURLEncoding.EncodeToString\<close> of Go's standard library:
  the URL-safe alphabet and no padding. The encoder packs three bytes into a \<^verbatim>\<open>uint\<close>
  and emits four characters, one for each group of six bits; one or two bytes left at the
  end give two or three characters.
\<close>

definition encodeURL :: string where
  "encodeURL = ''ABCDEFGHIJKLMNOPQRSTUVWXYZabcdefghijklmnopqrstuvwxyz0123456789-_''"

definition encode :: "64 word \<Rightarrow> char" where
  "encode i = encodeURL ! unat i"

fun RawURLEncoding_Encode :: "byte list \<Rightarrow> string" where
  "RawURLEncoding_Encode (s0 # s1 # s2 # src) =
     (let val = push_bit 16 (ucast s0) OR push_bit 8 (ucast s1) OR ucast s2
      in encode (drop_bit 18 val AND 0x3F) # encode (drop_bit 12 val AND 0x3F) #
         encode (drop_bit 6 val AND 0x3F) # encode (val AND 0x3F) #
         RawURLEncoding_Encode src)"
| "RawURLEncoding_Encode [s0, s1] =
     (let val = push_bit 16 (ucast s0) OR push_bit 8 (ucast s1)
      in [encode (drop_bit 18 val AND 0x3F), encode (drop_bit 12 val AND 0x3F),
          encode (drop_bit 6 val AND 0x3F)])"
| "RawURLEncoding_Encode [s0] =
     (let val = push_bit 16 (ucast s0)
      in [encode (drop_bit 18 val AND 0x3F), encode (drop_bit 12 val AND 0x3F)])"
| "RawURLEncoding_Encode [] = []"

definition EncodeToString :: "byte list \<Rightarrow> string" where
  "EncodeToString src = RawURLEncoding_Encode src"

text \<open>
  The decoder of the same encoding, \<^verbatim>\<open>base64.RawURLEncoding.DecodeString\<close>, is what a
  relying party applies to the published strings; the source does not call it. It skips
  the characters \<^verbatim>\<open>\r\<close> and \<^verbatim>\<open>\n\<close>, looks every other character up in the alphabet, packs
  four of them into three bytes, accepts two or three characters at the end and refuses a
  single one and any character outside the alphabet (\<open>None\<close>).
\<close>

definition decodeMap :: "char \<Rightarrow> 64 word option" where
  "decodeMap = map_of (zip encodeURL (map of_nat [0..<64]))"

fun decodeQuantum :: "string \<Rightarrow> byte list option" where
  "decodeQuantum (c0 # c1 # c2 # c3 # s) =
     (case (decodeMap c0, decodeMap c1, decodeMap c2, decodeMap c3) of
        (Some d0, Some d1, Some d2, Some d3) \<Rightarrow>
          (let val = push_bit 18 d0 OR push_bit 12 d1 OR push_bit 6 d2 OR d3
           in map_option
                (\<lambda>bs. ucast (drop_bit 16 val) # ucast (drop_bit 8 val) # ucast val # bs)
                (decodeQuantum s))
      | _ \<Rightarrow> None)"
| "decodeQuantum [c0, c1, c2] =
     (case (decodeMap c0, decodeMap c1, decodeMap c2) of
        (Some d0, Some d1, Some d2) \<Rightarrow>
          (let val = push_bit 18 d0 OR push_bit 12 d1 OR push_bit 6 d2
           in Some [ucast (drop_bit 16 val), ucast (drop_bit 8 val)])
      | _ \<Rightarrow> None)"
| "decodeQuantum [c0, c1] =
     (case (decodeMap c0, decodeMap c1) of
        (Some d0, Some d1) \<Rightarrow>
          (let val = push_bit 18 d0 OR push_bit 12 d1
           in Some [ucast (drop_bit 16 val)])
      | _ \<Rightarrow> None)"
| "decodeQuantum [c0] = None"
| "decodeQuantum [] = Some []"

definition RawURLEncoding_DecodeString :: "string \<Rightarrow> byte list option" where
  "RawURLEncoding_DecodeString s =
     decodeQuantum (filter (\<lambda>c. c \<noteq> CHR 0x0A \<and> c \<noteq> CHR 0x0D) s)"

subsection \<open>\<^verbatim>\<open>Jkws\<close>\<close>

record JkwsResponse =
  KeyTypeKey :: string
  AlgorithmKey :: string
  PubKeyExponentKey :: string
  PubKeyModulusKey :: string
  KeyUsageKey :: string
  KeyIDKey :: string

text \<open>
  The handler makes one call on the gin context, \<^verbatim>\<open>c.JSON(200, gin.H{"keys": ...})\<close>:
  \<open>Keys xs\<close> is the map \<^verbatim>\<open>gin.H{"keys": xs}\<close> and \<open>JSON code obj\<close> the call. The context
  itself is a parameter \<open>c\<close> of any type.
\<close>

datatype gin_H = Keys "JkwsResponse list"

datatype response = JSON int gin_H

definition jwa_RS256_String :: string where
  "jwa_RS256_String = ''RS256''"

text \<open>
  \<^verbatim>\<open>Jkws(config)\<close> returns a closure over \<^verbatim>\<open>config\<close>, here \<open>cfg\<close>; \<open>Jkws cfg c\<close> is one call of
  that closure on the context \<open>c\<close>. It returns the captured configuration after the call
  and either the response or the panic. The two results that the source discards with
  \<^verbatim>\<open>_\<close> leave \<^verbatim>\<open>pubKey\<close> nil when \<^verbatim>\<open>PublicKey()\<close> fails and \<^verbatim>\<open>E\<close>, \<^verbatim>\<open>N\<close> nil when \<^verbatim>\<open>Get\<close>
  finds no field; the method call on the nil \<^verbatim>\<open>pubKey\<close> and the type assertions
  \<^verbatim>\<open>E.([]byte)\<close>, \<^verbatim>\<open>N.([]byte)\<close> panic, in the order of the struct literal.
\<close>

definition Jkws :: "Config \<Rightarrow> 'ctx \<Rightarrow> Config \<times> (panic + response)" where
  "Jkws cfg c =
     (cfg,
      case key cfg of
        None \<Rightarrow> Inl NilDereference
      | Some k \<Rightarrow>
          (let pubKey = (case PublicKey k of Inl _ \<Rightarrow> None | Inr p \<Rightarrow> Some p);
               E = Get k ''e'';
               N = Get k ''n''
           in case pubKey of
                None \<Rightarrow> Inl NilDereference
              | Some p \<Rightarrow>
                  (case E of
                     Some (Bytes e) \<Rightarrow>
                       (case N of
                          Some (Bytes n) \<Rightarrow>
                            Inr (JSON 200 (Keys [\<lparr>KeyTypeKey = KeyType_String p,
                                   AlgorithmKey = jwa_RS256_String,
                                   PubKeyExponentKey = EncodeToString e,
                                   PubKeyModulusKey = EncodeToString n,
                                   KeyUsageKey = KeyUsage k,
                                   KeyIDKey = KeyID k\<rparr>]))
                        | _ \<Rightarrow> Inl TypeAssertion)
                   | _ \<Rightarrow> Inl TypeAssertion)))"

text \<open>A server calls the handler once for each request, one context after the other.\<close>

fun serve :: "Config \<Rightarrow> 'ctx list \<Rightarrow> Config \<times> (panic + response) list" where
  "serve cfg [] = (cfg, [])"
| "serve cfg (c # cs) =
     (case Jkws cfg c of
        (cfg1, r) \<Rightarrow> (case serve cfg1 cs of (cfg2, rs) \<Rightarrow> (cfg2, r # rs)))"

subsection \<open>The bytes of the response\<close>

text \<open>
  gin writes \<^verbatim>\<open>json.Marshal(obj)\<close> as the body. A struct is written with its fields in
  the order of their declaration, under the names of the \<^verbatim>\<open>json\<close> tags, a slice between
  brackets, a map between braces. How \<^verbatim>\<open>encoding/json\<close> quotes and escapes a string
  belongs to the standard library: it is the parameter \<open>quote\<close>.
\<close>

definition marshal_JkwsResponse :: "(string \<Rightarrow> string) \<Rightarrow> JkwsResponse \<Rightarrow> string" where
  \<open>marshal_JkwsResponse quote r =
     ''{"kty":'' @ quote (KeyTypeKey r) @
     '',"alg":'' @ quote (AlgorithmKey r) @
     '',"e":'' @ quote (PubKeyExponentKey r) @
     '',"n":'' @ quote (PubKeyModulusKey r) @
     '',"use":'' @ quote (KeyUsageKey r) @
     '',"kid":'' @ quote (KeyIDKey r) @ ''}''\<close>

fun join_comma :: "string list \<Rightarrow> string" where
  "join_comma [] = []"
| "join_comma [x] = x"
| "join_comma (x # y # ys) = x @ '','' @ join_comma (y # ys)"

fun marshal :: "(string \<Rightarrow> string) \<Rightarrow> gin_H \<Rightarrow> string" where
  "marshal quote (Keys xs) =
     ''{'' @ quote ''keys'' @ '':['' @
     join_comma (map (marshal_JkwsResponse quote) xs) @ '']}''"

fun body :: "(string \<Rightarrow> string) \<Rightarrow> response \<Rightarrow> string" where
  "body quote (JSON code obj) = marshal quote obj"


section \<open>Programs that configure a builder\<close>

text \<open>
  A client configures a builder \<^verbatim>\<open>b\<close> by a sequence of setter calls, each on a facet made
  from \<^verbatim>\<open>b\<close>: \<^verbatim>\<open>b.NewPrivateKey().WithKeyLength(n)\<close>, \<^verbatim>\<open>b.NewPrivateKey().WithKeyId(s)\<close>,
  \<^verbatim>\<open>b.ImportPrivateKey().WithPath(s)\<close>, \<^verbatim>\<open>b.ImportPrivateKey().WithKeyId(s)\<close>.
\<close>

datatype setter_call =
  Call_WithKeyLength int
| Call_New_WithKeyId string
| Call_WithPath string
| Call_Import_WithKeyId string

fun on_new_facet :: "setter_call \<Rightarrow> bool" where
  "on_new_facet (Call_WithKeyLength n) = True"
| "on_new_facet (Call_New_WithKeyId s) = True"
| "on_new_facet (Call_WithPath s) = False"
| "on_new_facet (Call_Import_WithKeyId s) = False"

fun call :: "setter_call \<Rightarrow> ConfigBuilder \<Rightarrow> heap \<Rightarrow> panic + heap" where
  "call (Call_WithKeyLength n) b h = map_sum id snd (WithKeyLength n (NewPrivateKey b) h)"
| "call (Call_New_WithKeyId s) b h = map_sum id snd (New_WithKeyId s (NewPrivateKey b) h)"
| "call (Call_WithPath s) b h = map_sum id snd (WithPath s (ImportPrivateKey b) h)"
| "call (Call_Import_WithKeyId s) b h =
     map_sum id snd (Import_WithKeyId s (ImportPrivateKey b) h)"

fun calls :: "setter_call list \<Rightarrow> ConfigBuilder \<Rightarrow> heap \<Rightarrow> panic + heap" where
  "calls [] b h = Inr h"
| "calls (x # xs) b h =
     (case call x b h of
        Inl p \<Rightarrow> Inl p
      | Inr h1 \<Rightarrow> calls xs b h1)"

section \<open>A fixed key and a fixed environment\<close>

text \<open>
  The modulus of the key whose JWKS document the README prints, and the RSA private key
  that the library makes of it: public exponent 65537, no field rejected by \<^verbatim>\<open>Set\<close>.
\<close>

definition fixture_modulus :: "byte list" where
  "fixture_modulus =
    [
     0xE8, 0x31, 0xB2, 0x04, 0xC8, 0xD8, 0x70, 0x2E, 0x67, 0x7F, 0xB7, 0x87,
     0x1C, 0x2A, 0xAF, 0xC1, 0xD8, 0x23, 0xAF, 0x9F, 0xFA, 0xFC, 0x09, 0xCC,
     0x6D, 0x5D, 0x76, 0xE2, 0x3B, 0x6C, 0xCE, 0xEE, 0xB6, 0xBE, 0x73, 0x07,
     0x1D, 0x22, 0x24, 0x54, 0xFE, 0x9E, 0xE4, 0x55, 0x84, 0x41, 0x15, 0x16,
     0x5D, 0x8C, 0x30, 0xD9, 0xCB, 0xBE, 0x3C, 0xA5, 0x76, 0x70, 0x9D, 0x4F,
     0x71, 0x2B, 0xC8, 0xB3, 0xE3, 0x93, 0xC1, 0x26, 0xB2, 0x26, 0x7A, 0xD0,
     0x4E, 0x1B, 0x0A, 0xE4, 0xFC, 0xC4, 0x02, 0xC1, 0xFC, 0xA4, 0x48, 0x40,
     0xA0, 0x2D, 0x88, 0xCE, 0x5A, 0x6F, 0xE2, 0x82, 0xBB, 0xBC, 0x96, 0x28,
     0x52, 0xE9, 0x5C, 0x59, 0x32, 0xC5, 0xAB, 0x44, 0xDC, 0x0B, 0x41, 0xA4,
     0x21, 0x9D, 0xEB, 0x51, 0x49, 0xF6, 0x45, 0x10, 0x2A, 0xE7, 0x4F, 0x00,
     0xD0, 0x52, 0x3E, 0x7A, 0x9D, 0x7B, 0x3E, 0x35, 0x3B, 0xC9, 0xA9, 0x99,
     0x00, 0x7C, 0x25, 0x7D, 0x93, 0xD0, 0xE8, 0xD1, 0x05, 0x3A, 0x76, 0x9B,
     0x05, 0x41, 0x3E, 0xA8, 0x26, 0xAA, 0xBA, 0xFD, 0x4F, 0x98, 0xD5, 0xD5,
     0xF8, 0xF2, 0xD9, 0x86, 0x1C, 0x00, 0xC6, 0x4B, 0xB1, 0x70, 0x68, 0x99,
     0x09, 0xA7, 0xE5, 0x90, 0xD9, 0x87, 0xF2, 0x6C, 0x3B, 0x2F, 0xBF, 0x73,
     0x41, 0x65, 0x40, 0x56, 0x0C, 0x88, 0x4B, 0xAF, 0x0E, 0x57, 0xB0, 0xA7,
     0x6E, 0x56, 0xEE, 0x37, 0x00, 0x8E, 0x3B, 0x3B, 0x8B, 0x9A, 0x71, 0x09,
     0x0F, 0x7A, 0x70, 0x09, 0xF3, 0x2A, 0xED, 0xAD, 0xB6, 0xBD, 0x6F, 0xC7,
     0x5D, 0xF5, 0x56, 0xCD, 0x1A, 0x9E, 0x86, 0x47, 0xE0, 0xBC, 0x7D, 0x83,
     0x99, 0xA9, 0x1B, 0x7E, 0x6D, 0x7B, 0x5B, 0x31, 0x5A, 0x5A, 0x8F, 0xDA,
     0xF0, 0x05, 0x1A, 0x53, 0xCA, 0x23, 0x63, 0xC0, 0xCA, 0xF9, 0x8C, 0x55,
     0xD2, 0x95, 0x34, 0xA3
    ]"

definition fixture_key :: jwk_Key where
  "fixture_key =
     \<lparr>GoType = ''*jwk.rsaPrivateKey'',
      RSAPrivateKey = True,
      PublicKey = Inr \<lparr>KeyType_String = ''RSA''\<rparr>,
      field = [''e'' \<mapsto> Bytes [0x01, 0x00, 0x01], ''n'' \<mapsto> Bytes fixture_modulus],
      Set_error = (\<lambda>name v. None)\<rparr>"

text \<open>
  An environment in which key generation succeeds, the file \<^verbatim>\<open>private.pem\<close> holds a
  key that parses, the file \<^verbatim>\<open>notes.txt\<close> holds text that does not, and no other file
  exists.
\<close>

definition fixture_pem :: "byte list" where
  "fixture_pem = [0x2D, 0x2D, 0x2D, 0x2D, 0x2D]"

definition fixture_env :: "unit env" where
  "fixture_env =
     \<lparr>rsa_GenerateKey = (\<lambda>n. Inr ()),
      jwk_FromRaw = (\<lambda>raw. Inr fixture_key),
      ioutil_ReadFile = (\<lambda>path.
        if path = ''private.pem'' then Inr fixture_pem
        else if path = ''notes.txt'' then Inr [0x68, 0x69]
        else Inl (''open '' @ path @ '': no such file or directory'')),
      jwk_ParseKey = (\<lambda>data.
        if data = fixture_pem then Inr fixture_key
        else Inl ''failed to parse PEM encoded key'')\<rparr>"

text \<open>The builder and the store that \<^verbatim>\<open>NewConfigBuilder()\<close> returns in an empty store.\<close>

definition new_builder :: ConfigBuilder where
  "new_builder = fst (NewConfigBuilder [])"

definition new_heap :: heap where
  "new_heap = snd (NewConfigBuilder [])"

text \<open>A string encoder that escapes nothing: the string between double quotes.\<close>

definition quote_plain :: "string \<Rightarrow> string" where
  "quote_plain s = CHR 0x22 # s @ [CHR 0x22]"

text \<open>The store after a client has made the setter calls \<open>cs\<close> on a new builder.\<close>

definition heap_after :: "setter_call list \<Rightarrow> heap" where
  "heap_after cs = (case calls cs new_builder new_heap of Inl p \<Rightarrow> [] | Inr h \<Rightarrow> h)"

text \<open>
  The options that \<^verbatim>\<open>Build\<close> holds in its variable \<^verbatim>\<open>opts\<close> once both blocks have run:
  the import options when they are set, the new-key options otherwise.
\<close>

definition selected_opts :: "Config \<Rightarrow> Options option" where
  "selected_opts c =
     (case importPkOpts c of
        Some opts \<Rightarrow> Some (ImportOpts opts)
      | None \<Rightarrow> map_option NewOpts (newPkOpts c))"

text \<open>The key of the configuration that a successful \<^verbatim>\<open>Build\<close> returns.\<close>

definition built_key :: "panic + ((nat option \<times> error option) \<times> heap) \<Rightarrow> jwk_Key option" where
  "built_key r =
     (case r of
        Inr ((Some a, None), h) \<Rightarrow>
          (case deref h (Some a) of Some (a', c) \<Rightarrow> key c | None \<Rightarrow> None)
      | _ \<Rightarrow> None)"

text \<open>
  The fixed key once \<^verbatim>\<open>Build\<close> has set \<^verbatim>\<open>kid\<close> to \<^verbatim>\<open>my-id\<close> and \<^verbatim>\<open>use\<close> to \<^verbatim>\<open>sig\<close>, the
  configurations that the two programs of the README build with it, and the entry that
  the handler publishes for them.
\<close>

definition readme_key :: jwk_Key where
  "readme_key =
     \<lparr>GoType = ''*jwk.rsaPrivateKey'',
      RSAPrivateKey = True,
      PublicKey = Inr \<lparr>KeyType_String = ''RSA''\<rparr>,
      field = [''e'' \<mapsto> Bytes [0x01, 0x00, 0x01], ''n'' \<mapsto> Bytes fixture_modulus,
               ''kid'' \<mapsto> Str ''my-id'', ''use'' \<mapsto> Str ''sig''],
      Set_error = (\<lambda>name v. None)\<rparr>"

definition readme_config :: Config where
  "readme_config =
     \<lparr>key = Some readme_key,
      newPkOpts = Some \<lparr>NewKeyOptions.keyId = ''my-id'', bits = 2048\<rparr>,
      importPkOpts = None\<rparr>"


definition readme_entry :: JkwsResponse where
  "readme_entry =
     \<lparr>KeyTypeKey = ''RSA'', AlgorithmKey = ''RS256'',
      PubKeyExponentKey = EncodeToString [0x01, 0x00, 0x01],
      PubKeyModulusKey = EncodeToString fixture_modulus,
      KeyUsageKey = ''sig'', KeyIDKey = ''my-id''\<rparr>"







text \<open>
  The RSA public key that \<^verbatim>\<open>jwk.ParseKey\<close> makes of a PEM file holding a public key, and
  the environment \<open>fixture_env\<close> with one more file, \<^verbatim>\<open>public.pem\<close>, holding it.
\<close>

definition fixture_public_key :: jwk_Key where
  "fixture_public_key =
     \<lparr>GoType = ''*jwk.rsaPublicKey'',
      RSAPrivateKey = False,
      PublicKey = Inr \<lparr>KeyType_String = ''RSA''\<rparr>,
      field = [''e'' \<mapsto> Bytes [0x01, 0x00, 0x01], ''n'' \<mapsto> Bytes fixture_modulus],
      Set_error = (\<lambda>name v. None)\<rparr>"

definition fixture_public_pem :: "byte list" where
  "fixture_public_pem = [0x2D, 0x2D, 0x2D, 0x2D, 0x2D, 0x42]"

definition fixture_env_public :: "unit env" where
  "fixture_env_public =
     fixture_env\<lparr>
       ioutil_ReadFile := (\<lambda>path.
         if path = ''public.pem'' then Inr fixture_public_pem
         else ioutil_ReadFile fixture_env path),
       jwk_ParseKey := (\<lambda>data.
         if data = fixture_public_pem then Inr fixture_public_key
         else jwk_ParseKey fixture_env data)\<rparr>"

section \<open>Base64url: decoding what \<^verbatim>\<open>EncodeToString\<close> wrote\<close>

lemma distinct_encodeURL: "distinct encodeURL"
  by (simp add: encodeURL_def)

lemma length_encodeURL: "length encodeURL = 64"
  by (simp add: encodeURL_def)

lemma sextet_less: "(w :: 64 word) AND 0x3F < 64"
proof -
  have "w AND 0x3F \<le> 0x3F" by (rule word_and_le1)
  then show ?thesis by (simp add: word_le_nat_alt word_less_nat_alt)
qed

lemma decodeMap_encode:
  assumes "i < 64"
  shows "decodeMap (encode i) = Some i"
proof -
  have u: "unat i < 64" using assms by (simp add: word_less_nat_alt)
  have "decodeMap (encodeURL ! unat i) = Some (map of_nat [0..<64] ! unat i)"
    unfolding decodeMap_def
    by (rule map_of_zip_nth) (use u in \<open>simp_all add: length_encodeURL distinct_encodeURL\<close>)
  also have "map of_nat [0..<64] ! unat i = (of_nat (unat i) :: 64 word)"
    using u by (simp del: upt_Suc)
  finally show ?thesis by (simp add: encode_def)
qed

lemma decodeMap_sextet: "decodeMap (encode (w AND 0x3F)) = Some (w AND 0x3F)"
  by (rule decodeMap_encode) (rule sextet_less)

lemma sextet_mask: "(0x3F :: 64 word) = mask 6"
  by (simp add: mask_eq_exp_minus_1)

lemma quantum_bits:
  fixes v :: "64 word"
  assumes "n < 64"
  shows "bit (push_bit 18 (drop_bit 18 v AND mask 6) OR push_bit 12 (drop_bit 12 v AND mask 6)
       OR push_bit 6 (drop_bit 6 v AND mask 6) OR (v AND mask 6)) n = (bit v n \<and> n < 24)"
proof -
  consider "n < 6" | "6 \<le> n" "n < 12" | "12 \<le> n" "n < 18" | "18 \<le> n" "n < 24" | "24 \<le> n"
    by linarith
  then show ?thesis
    by cases (use assms in \<open>auto simp add: bit_simps\<close>)
qed

lemma quantum3:
  fixes s0 s1 s2 :: byte
  defines "v \<equiv> (push_bit 16 (ucast s0) OR push_bit 8 (ucast s1) OR ucast s2 :: 64 word)"
  defines "w \<equiv> push_bit 18 (drop_bit 18 v AND 0x3F) OR push_bit 12 (drop_bit 12 v AND 0x3F)
       OR push_bit 6 (drop_bit 6 v AND 0x3F) OR (v AND 0x3F)"
  shows "ucast (drop_bit 16 w) = s0" and "ucast (drop_bit 8 w) = s1" and "ucast w = s2"
proof -
  have w: "bit w n = (bit v n \<and> n < 24)" if "n < 64" for n
    unfolding w_def sextet_mask using that by (rule quantum_bits)
  show "ucast (drop_bit 16 w) = s0"
    by (rule bit_word_eqI) (auto simp add: bit_simps w v_def dest: bit_imp_le_length)
  show "ucast (drop_bit 8 w) = s1"
    by (rule bit_word_eqI) (auto simp add: bit_simps w v_def dest: bit_imp_le_length)
  show "ucast w = s2"
    by (rule bit_word_eqI) (auto simp add: bit_simps w v_def dest: bit_imp_le_length)
qed

lemma quantum2:
  fixes s0 s1 :: byte
  defines "v \<equiv> (push_bit 16 (ucast s0) OR push_bit 8 (ucast s1) :: 64 word)"
  defines "w \<equiv> push_bit 18 (drop_bit 18 v AND 0x3F) OR push_bit 12 (drop_bit 12 v AND 0x3F)
       OR push_bit 6 (drop_bit 6 v AND 0x3F)"
  shows "ucast (drop_bit 16 w) = s0" and "ucast (drop_bit 8 w) = s1"
proof -
  have w: "bit w n = (bit v n \<and> 6 \<le> n \<and> n < 24)" if "n < 64" for n
  proof -
    consider "n < 6" | "6 \<le> n" "n < 12" | "12 \<le> n" "n < 18" | "18 \<le> n" "n < 24" | "24 \<le> n"
      by linarith
    then show ?thesis
      unfolding w_def sextet_mask by cases (use that in \<open>auto simp add: bit_simps\<close>)
  qed
  show "ucast (drop_bit 16 w) = s0"
    by (rule bit_word_eqI) (auto simp add: bit_simps w v_def dest: bit_imp_le_length)
  show "ucast (drop_bit 8 w) = s1"
    by (rule bit_word_eqI) (auto simp add: bit_simps w v_def dest: bit_imp_le_length)
qed

lemma quantum1:
  fixes s0 :: byte
  defines "v \<equiv> (push_bit 16 (ucast s0) :: 64 word)"
  defines "w \<equiv> push_bit 18 (drop_bit 18 v AND 0x3F) OR push_bit 12 (drop_bit 12 v AND 0x3F)"
  shows "ucast (drop_bit 16 w) = s0"
proof -
  have w: "bit w n = (bit v n \<and> 12 \<le> n \<and> n < 24)" if "n < 64" for n
  proof -
    consider "n < 12" | "12 \<le> n" "n < 18" | "18 \<le> n" "n < 24" | "24 \<le> n"
      by linarith
    then show ?thesis
      unfolding w_def sextet_mask by cases (use that in \<open>auto simp add: bit_simps\<close>)
  qed
  show "ucast (drop_bit 16 w) = s0"
    by (rule bit_word_eqI) (auto simp add: bit_simps w v_def dest: bit_imp_le_length)
qed

lemma decodeQuantum_Encode: "decodeQuantum (RawURLEncoding_Encode src) = Some src"
proof (induction src rule: RawURLEncoding_Encode.induct)
  case (1 s0 s1 s2 src)
  then show ?case
    by (simp only: RawURLEncoding_Encode.simps decodeQuantum.simps Let_def
        decodeMap_sextet prod.case option.case quantum3 option.map)
next
  case (2 s0 s1)
  show ?case
    by (simp only: RawURLEncoding_Encode.simps decodeQuantum.simps Let_def
        decodeMap_sextet prod.case option.case quantum2)
next
  case (3 s0)
  show ?case
    by (simp only: RawURLEncoding_Encode.simps decodeQuantum.simps Let_def
        decodeMap_sextet prod.case option.case quantum1)
next
  case 4
  show ?case by simp
qed

lemma encode_in_alphabet: "encode (w AND 0x3F) \<in> set encodeURL"
proof -
  have "unat (w AND 0x3F) < 64" using sextet_less [of w] by (simp add: word_less_nat_alt)
  then show ?thesis by (simp add: encode_def length_encodeURL)
qed

lemma Encode_alphabet: "set (RawURLEncoding_Encode src) \<subseteq> set encodeURL"
  by (induction src rule: RawURLEncoding_Encode.induct)
    (simp_all only: RawURLEncoding_Encode.simps Let_def list.set insert_subset empty_subsetI
      encode_in_alphabet simp_thms)

lemma newline_not_in_alphabet: "CHR 0x0A \<notin> set encodeURL" "CHR 0x0D \<notin> set encodeURL"
  by (simp_all add: encodeURL_def)

lemma Decode_Encode: "RawURLEncoding_DecodeString (RawURLEncoding_Encode src) = Some src"
proof -
  have "filter (\<lambda>c. c \<noteq> CHR 0x0A \<and> c \<noteq> CHR 0x0D) (RawURLEncoding_Encode src) =
      RawURLEncoding_Encode src"
    using Encode_alphabet [of src] newline_not_in_alphabet
    by (intro filter_True) blast
  then show ?thesis
    by (simp add: RawURLEncoding_DecodeString_def decodeQuantum_Encode)
qed



section \<open>Facts about \<^verbatim>\<open>Build\<close> and the setters\<close>


lemma Set_twice:
  assumes "Set k0 jwk_KeyIDKey (Str s) = (None, k1)" and "Set k1 jwk_KeyUsageKey (Str u) = (None, k2)"
  shows "KeyID k2 = s" and "KeyUsage k2 = u" and "RSAPrivateKey k2 = RSAPrivateKey k0"
    and "PublicKey k2 = PublicKey k0"
  using assms
  by (auto simp add: Set_def KeyID_def KeyUsage_def jwk_KeyIDKey_def jwk_KeyUsageKey_def
      split: option.splits)

lemma Build_finish_success:
  assumes "Build_finish a c h l = Inr ((Some a', None), h')"
  shows "\<exists>k0 opts k. l = (Some k0, Some opts) \<and> a' = a \<and> h' = h[a := c\<lparr>key := Some k\<rparr>] \<and>
           KeyID k = KeyId opts \<and> KeyUsage k = KeyUsageAsSignature \<and> RSAPrivateKey k \<and>
           (\<exists>p. PublicKey k = Inr p)"
proof -
  obtain ko oo where l: "l = (ko, oo)" by (cases l)
  from assms obtain k0 opts where ko: "ko = Some k0" and oo: "oo = Some opts"
    unfolding Build_finish_def l by (auto split: option.splits)
  from assms obtain k1 where s1: "Set k0 jwk_KeyIDKey (Str (KeyId opts)) = (None, k1)"
    unfolding Build_finish_def l ko oo by (auto split: option.splits prod.splits)
  from assms s1 obtain k2 where s2: "Set k1 jwk_KeyUsageKey (Str KeyUsageAsSignature) = (None, k2)"
    unfolding Build_finish_def l ko oo by (auto split: option.splits prod.splits)
  from assms s1 s2 have r: "RSAPrivateKey k2" and p: "\<exists>p. PublicKey k2 = Inr p"
    and a: "a' = a" and h: "h' = h[a := c\<lparr>key := Some k2\<rparr>]"
    unfolding Build_finish_def l ko oo by (auto split: if_splits sum.splits)
  from Set_twice(1,2) [OF s1 s2] r p a h l ko oo show ?thesis by blast
qed

lemma Build_locals:
  assumes "\<not> (newPkOpts c \<noteq> None \<and> importPkOpts c \<noteq> None)"
    and "Build_generate env c (None, None) = Inr l1" and "Build_import env c l1 = Inr (Some k0, Some opts)"
  shows "selected_opts c = Some opts"
  using assms
  by (auto simp add: Build_generate_def Build_import_def selected_opts_def
      split: option.splits sum.splits)

lemma Build_success_key:
  assumes "Build env b h = Inr ((Some a, None), h')"
  shows "\<exists>c opts k. deref h (config b) = Some (a, c) \<and> selected_opts c = Some opts \<and>
           h' = h[a := c\<lparr>key := Some k\<rparr>] \<and> KeyID k = KeyId opts \<and>
           KeyUsage k = KeyUsageAsSignature \<and> RSAPrivateKey k \<and> (\<exists>p. PublicKey k = Inr p)"
proof -
  from assms obtain a0 c where d: "deref h (config b) = Some (a0, c)"
    unfolding Build_def by (auto split: option.splits)
  from assms d have nb: "\<not> (newPkOpts c \<noteq> None \<and> importPkOpts c \<noteq> None)"
    unfolding Build_def by (auto split: if_splits)
  from assms d nb obtain l1 where g: "Build_generate env c (None, None) = Inr l1"
    unfolding Build_def by (auto split: sum.splits)
  from assms d nb g obtain l2 where i: "Build_import env c l1 = Inr l2"
    unfolding Build_def by (auto split: sum.splits)
  from assms d nb g i have f: "Build_finish a0 c h l2 = Inr ((Some a, None), h')"
    unfolding Build_def by auto
  from Build_finish_success [OF f] obtain k0 opts k where
    l2: "l2 = (Some k0, Some opts)" and a: "a = a0" and h': "h' = h[a0 := c\<lparr>key := Some k\<rparr>]"
    and rest: "KeyID k = KeyId opts" "KeyUsage k = KeyUsageAsSignature" "RSAPrivateKey k"
      "\<exists>p. PublicKey k = Inr p"
    by blast
  from Build_locals [OF nb g i [unfolded l2]] have "selected_opts c = Some opts" .
  with d a h' rest show ?thesis by blast
qed

lemma call_sets:
  assumes "deref h (config b) = Some (a, c)"
  shows "\<exists>h' c'. call x b h = Inr h' \<and> deref h' (config b) = Some (a, c') \<and>
           (newPkOpts c' \<noteq> None \<longleftrightarrow> newPkOpts c \<noteq> None \<or> on_new_facet x) \<and>
           (importPkOpts c' \<noteq> None \<longleftrightarrow> importPkOpts c \<noteq> None \<or> \<not> on_new_facet x)"
  using assms
  by (cases x)
    (auto simp add: deref_def NewPrivateKey_def ImportPrivateKey_def
      split: option.splits if_splits)

lemma calls_sets:
  assumes "deref h (config b) = Some (a, c)"
  shows "\<exists>h' c'. calls xs b h = Inr h' \<and> deref h' (config b) = Some (a, c') \<and>
           (newPkOpts c' \<noteq> None \<longleftrightarrow> newPkOpts c \<noteq> None \<or> (\<exists>x\<in>set xs. on_new_facet x)) \<and>
           (importPkOpts c' \<noteq> None \<longleftrightarrow>
              importPkOpts c \<noteq> None \<or> (\<exists>x\<in>set xs. \<not> on_new_facet x))"
  using assms
proof (induction xs arbitrary: h c)
  case Nil
  then show ?case by simp
next
  case (Cons x xs)
  from call_sets [OF Cons.prems, of x] obtain h1 c1 where
    1: "call x b h = Inr h1" "deref h1 (config b) = Some (a, c1)"
      "newPkOpts c1 \<noteq> None \<longleftrightarrow> newPkOpts c \<noteq> None \<or> on_new_facet x"
      "importPkOpts c1 \<noteq> None \<longleftrightarrow> importPkOpts c \<noteq> None \<or> \<not> on_new_facet x"
    by blast
  from Cons.IH [OF 1(2)] obtain h' c' where
    2: "calls xs b h1 = Inr h'" "deref h' (config b) = Some (a, c')"
      "newPkOpts c' \<noteq> None \<longleftrightarrow> newPkOpts c1 \<noteq> None \<or> (\<exists>x\<in>set xs. on_new_facet x)"
      "importPkOpts c' \<noteq> None \<longleftrightarrow> importPkOpts c1 \<noteq> None \<or> (\<exists>x\<in>set xs. \<not> on_new_facet x)"
    by blast
  have "calls (x # xs) b h = Inr h'" using 1(1) 2(1) by simp
  moreover have "newPkOpts c' \<noteq> None \<longleftrightarrow>
      newPkOpts c \<noteq> None \<or> (\<exists>y\<in>set (x # xs). on_new_facet y)"
    using 1(3) 2(3) by auto
  moreover have "importPkOpts c' \<noteq> None \<longleftrightarrow>
      importPkOpts c \<noteq> None \<or> (\<exists>y\<in>set (x # xs). \<not> on_new_facet y)"
    using 1(4) 2(4) by auto
  ultimately show ?case using 2(2) by blast
qed

text \<open>The stores and the results of \<^verbatim>\<open>Build\<close> for the programs used as examples.\<close>

lemmas program_defs =
  heap_after_def new_builder_def new_heap_def NewConfigBuilder_def NewPrivateKey_def
  ImportPrivateKey_def deref_def

lemmas Build_defs =
  Build_def Build_generate_def Build_import_def Build_finish_def generatePrivateKey_def
  importPrivateKey_def Set_def jwk_KeyIDKey_def jwk_KeyUsageKey_def KeyUsageAsSignature_def

lemma new_builder_deref:
  "deref new_heap (config new_builder) =
     Some (0, \<lparr>key = None, newPkOpts = None, importPkOpts = None\<rparr>)"
  by (simp add: program_defs)

lemma readme_heap:
  "heap_after [Call_New_WithKeyId ''my-id'', Call_WithKeyLength 2048] =
     [\<lparr>key = None, newPkOpts = Some \<lparr>NewKeyOptions.keyId = ''my-id'', bits = 2048\<rparr>,
       importPkOpts = None\<rparr>]"
  by (simp add: program_defs)

lemma readme_Build:
  "Build fixture_env new_builder
     (heap_after [Call_New_WithKeyId ''my-id'', Call_WithKeyLength 2048]) =
   Inr ((Some 0, None), [readme_config])"
  unfolding readme_heap
  by (simp add: Build_defs new_builder_def NewConfigBuilder_def deref_def fixture_env_def
      fixture_key_def readme_config_def readme_key_def)



lemma missing_heap:
  "heap_after [Call_WithPath ''missing.pem'', Call_Import_WithKeyId ''k''] =
     [\<lparr>key = None, newPkOpts = None,
       importPkOpts =
         Some \<lparr>ImportKeyOptions.keyId = ''k'', privateKeyPemPath = ''missing.pem''\<rparr>\<rparr>]"
  by (simp add: program_defs)

lemma notes_heap:
  "heap_after [Call_WithPath ''notes.txt'', Call_Import_WithKeyId ''k''] =
     [\<lparr>key = None, newPkOpts = None,
       importPkOpts =
         Some \<lparr>ImportKeyOptions.keyId = ''k'', privateKeyPemPath = ''notes.txt''\<rparr>\<rparr>]"
  by (simp add: program_defs)

lemma public_heap:
  "heap_after [Call_WithPath ''public.pem'', Call_Import_WithKeyId ''k''] =
     [\<lparr>key = None, newPkOpts = None,
       importPkOpts =
         Some \<lparr>ImportKeyOptions.keyId = ''k'', privateKeyPemPath = ''public.pem''\<rparr>\<rparr>]"
  by (simp add: program_defs)

lemma readme_key_facts:
  "PublicKey readme_key = Inr \<lparr>KeyType_String = ''RSA''\<rparr>"
  "Get readme_key ''e'' = Some (Bytes [0x01, 0x00, 0x01])"
  "Get readme_key ''n'' = Some (Bytes fixture_modulus)"
  "KeyUsage readme_key = ''sig''"
  "KeyID readme_key = ''my-id''"
  by (simp_all add: readme_key_def Get_def KeyUsage_def KeyID_def jwk_KeyUsageKey_def
      jwk_KeyIDKey_def)

section \<open>Facts about the handler\<close>

lemma Jkws_ctx: "Jkws cfg c = Jkws cfg c'"
  by (simp add: Jkws_def)

lemma fst_Jkws: "fst (Jkws cfg c) = cfg"
  by (simp add: Jkws_def)

lemma AQAB: "EncodeToString [0x01, 0x00, 0x01] = ''AQAB''"
  by (simp add: EncodeToString_def encode_def encodeURL_def)

lemma modulus_encoded:
  "EncodeToString fixture_modulus = ''6DGyBMjYcC5nf7eHHCqvwdgjr5_6_AnMbV124jtszu62vnMHHSIkVP6e5FWEQRUWXYww2cu-PKV2cJ1PcSvIs-OTwSayJnrQThsK5PzEAsH8pEhAoC2Izlpv4oK7vJYoUulcWTLFq0TcC0GkIZ3rUUn2RRAq508A0FI-ep17PjU7yamZAHwlfZPQ6NEFOnabBUE-qCaquv1PmNXV-PLZhhwAxkuxcGiZCaflkNmH8mw7L79zQWVAVgyIS68OV7CnblbuNwCOOzuLmnEJD3pwCfMq7a22vW_HXfVWzRqehkfgvH2Dmakbfm17WzFaWo_a8AUaU8ojY8DK-YxV0pU0ow''"
  by (simp add: EncodeToString_def fixture_modulus_def encode_def encodeURL_def)

lemma Jkws_readme_config:
  "Jkws readme_config c = (readme_config, Inr (JSON 200 (Keys [readme_entry])))"
  by (simp add: Jkws_def readme_config_def readme_key_facts readme_entry_def
      jwa_RS256_String_def)

section \<open>The claims\<close>

subsection \<open>C1: the key id of a built configuration\<close>

text \<open>
  C1, as stated: \<^verbatim>\<open>Build\<close> succeeds only if a key id was set before the call, and every
  built configuration carries a non-empty key id. \<^verbatim>\<open>Build\<close> has no test of the key id:
  what holds is that the key of a built configuration carries, as its \<^verbatim>\<open>kid\<close>, the
  \<^verbatim>\<open>keyId\<close> of the options that \<^verbatim>\<open>Build\<close> selected, whatever that string is (and \<^verbatim>\<open>sig\<close>
  as its \<^verbatim>\<open>use\<close>).
\<close>

theorem Build_key_id:
  assumes "Build env b h = Inr ((Some a, None), h')"
  shows "\<exists>c opts k. deref h (config b) = Some (a, c) \<and> selected_opts c = Some opts \<and>
           h' = h[a := c\<lparr>key := Some k\<rparr>] \<and> KeyID k = KeyId opts \<and>
           KeyUsage k = KeyUsageAsSignature"
  using Build_success_key [OF assms] by blast

theorem Build_key_id_witness:
  "Build fixture_env new_builder
     (heap_after [Call_New_WithKeyId ''my-id'', Call_WithKeyLength 2048]) =
   Inr ((Some 0, None), [readme_config]) \<and>
   (\<exists>c opts k.
      deref (heap_after [Call_New_WithKeyId ''my-id'', Call_WithKeyLength 2048])
        (config new_builder) = Some (0, c) \<and>
      selected_opts c = Some opts \<and>
      [readme_config] =
        (heap_after [Call_New_WithKeyId ''my-id'', Call_WithKeyLength 2048])
          [0 := c\<lparr>key := Some k\<rparr>] \<and>
      KeyID k = KeyId opts \<and> KeyUsage k = KeyUsageAsSignature)"
  using readme_Build Build_key_id [OF readme_Build] by (rule conjI)

text \<open>
  The counterexample to C1 as stated: a client calls \<^verbatim>\<open>WithKeyLength(2048)\<close> on a new
  builder and never \<^verbatim>\<open>WithKeyId\<close>; the options hold the empty key id, \<^verbatim>\<open>Build\<close> succeeds
  and the key it installs has the empty \<^verbatim>\<open>kid\<close>.
\<close>

theorem Build_without_key_id:
  "heap_after [Call_WithKeyLength 2048] =
     [\<lparr>key = None, newPkOpts = Some \<lparr>NewKeyOptions.keyId = [], bits = 2048\<rparr>,
       importPkOpts = None\<rparr>] \<and>
   map_option KeyID
     (built_key (Build fixture_env new_builder (heap_after [Call_WithKeyLength 2048]))) =
   Some []"
proof -
  have h: "heap_after [Call_WithKeyLength 2048] =
     [\<lparr>key = None, newPkOpts = Some \<lparr>NewKeyOptions.keyId = [], bits = 2048\<rparr>,
       importPkOpts = None\<rparr>]"
    by (simp add: program_defs)
  show ?thesis
    unfolding h
    by (simp add: Build_defs built_key_def new_builder_def NewConfigBuilder_def deref_def
        fixture_env_def fixture_key_def KeyID_def)
qed

subsection \<open>C2: a failure inside the handler\<close>




subsection \<open>C3: the response for a built configuration\<close>




subsection \<open>C4: both sources selected\<close>

text \<open>
  C4: when both the new-key options and the import options are set, \<^verbatim>\<open>Build\<close> fails with
  the error "cannot import and generate a new private key", returns no configuration and
  leaves the store as it was; and this is the outcome after any sequence of setter calls
  on the facets of one builder that has a call on each facet, in whatever order.
\<close>

theorem Build_both_sources:
  assumes "deref h (config b) = Some (a, c)"
  shows "(newPkOpts c \<noteq> None \<and> importPkOpts c \<noteq> None \<longrightarrow>
            Build env b h =
              Inr ((None, Some ''cannot import and generate a new private key''), h)) \<and>
         ((\<exists>x\<in>set xs. on_new_facet x) \<and> (\<exists>y\<in>set xs. \<not> on_new_facet y) \<longrightarrow>
            (\<exists>h'. calls xs b h = Inr h' \<and>
               Build env b h' =
                 Inr ((None, Some ''cannot import and generate a new private key''), h')))"
proof (intro conjI impI)
  assume "newPkOpts c \<noteq> None \<and> importPkOpts c \<noteq> None"
  with assms show "Build env b h =
      Inr ((None, Some ''cannot import and generate a new private key''), h)"
    by (simp add: Build_def)
next
  assume both: "(\<exists>x\<in>set xs. on_new_facet x) \<and> (\<exists>y\<in>set xs. \<not> on_new_facet y)"
  from calls_sets [OF assms, of xs] obtain h' c' where
    1: "calls xs b h = Inr h'" "deref h' (config b) = Some (a, c')"
      "newPkOpts c' \<noteq> None \<longleftrightarrow> newPkOpts c \<noteq> None \<or> (\<exists>x\<in>set xs. on_new_facet x)"
      "importPkOpts c' \<noteq> None \<longleftrightarrow> importPkOpts c \<noteq> None \<or> (\<exists>x\<in>set xs. \<not> on_new_facet x)"
    by blast
  from both 1(3,4) have "newPkOpts c' \<noteq> None" "importPkOpts c' \<noteq> None" by blast+
  with 1(2) have "Build env b h' =
      Inr ((None, Some ''cannot import and generate a new private key''), h')"
    by (simp add: Build_def)
  with 1(1) show "\<exists>h'. calls xs b h = Inr h' \<and>
      Build env b h' = Inr ((None, Some ''cannot import and generate a new private key''), h')"
    by blast
qed

theorem Build_both_sources_witness:
  "deref new_heap (config new_builder) =
     Some (0, \<lparr>key = None, newPkOpts = None, importPkOpts = None\<rparr>) \<and>
   (\<exists>h'. calls [Call_WithKeyLength 2048, Call_WithPath ''x''] new_builder new_heap = Inr h' \<and>
      Build fixture_env new_builder h' =
        Inr ((None, Some ''cannot import and generate a new private key''), h')) \<and>
   (\<exists>h'. calls [Call_WithPath ''x'', Call_WithKeyLength 2048] new_builder new_heap = Inr h' \<and>
      Build fixture_env new_builder h' =
        Inr ((None, Some ''cannot import and generate a new private key''), h'))"
proof -
  have 1: "(\<exists>x\<in>set [Call_WithKeyLength 2048, Call_WithPath ''x'']. on_new_facet x) \<and>
           (\<exists>y\<in>set [Call_WithKeyLength 2048, Call_WithPath ''x'']. \<not> on_new_facet y)"
    by simp
  have 2: "(\<exists>x\<in>set [Call_WithPath ''x'', Call_WithKeyLength 2048]. on_new_facet x) \<and>
           (\<exists>y\<in>set [Call_WithPath ''x'', Call_WithKeyLength 2048]. \<not> on_new_facet y)"
    by simp
  note a = Build_both_sources [OF new_builder_deref, of fixture_env
      "[Call_WithKeyLength 2048, Call_WithPath ''x'']", THEN conjunct2, THEN mp, OF 1]
  note b = Build_both_sources [OF new_builder_deref, of fixture_env
      "[Call_WithPath ''x'', Call_WithKeyLength 2048]", THEN conjunct2, THEN mp, OF 2]
  from new_builder_deref a b show ?thesis by (intro conjI)
qed

subsection \<open>C5: no source selected\<close>

text \<open>
  C5: when neither the new-key options nor the import options are set, \<^verbatim>\<open>Build\<close> fails
  with the error "generate or import a private key" and returns no configuration.
\<close>

theorem Build_no_source:
  assumes "deref h (config b) = Some (a, c)"
    and "newPkOpts c = None" and "importPkOpts c = None"
  shows "Build env b h = Inr ((None, Some ''generate or import a private key''), h)"
  using assms by (simp add: Build_def Build_generate_def Build_import_def Build_finish_def)

theorem Build_no_source_witness:
  "deref new_heap (config new_builder) =
     Some (0, \<lparr>key = None, newPkOpts = None, importPkOpts = None\<rparr>) \<and>
   Build fixture_env new_builder new_heap =
     Inr ((None, Some ''generate or import a private key''), new_heap)"
proof -
  have 1: "newPkOpts \<lparr>key = None, newPkOpts = None, importPkOpts = None\<rparr> = None" by simp
  have 2: "importPkOpts \<lparr>key = None, newPkOpts = None, importPkOpts = None\<rparr> = None" by simp
  from new_builder_deref Build_no_source [OF new_builder_deref 1 2, of fixture_env]
  show ?thesis by (rule conjI)
qed

subsection \<open>C6: the import fails\<close>

text \<open>
  C6, as stated: for an import-configured builder \<^verbatim>\<open>Build\<close> fails with a file-read error
  when the file cannot be read and with a parse error when the file content is not a
  valid PEM-encoded private key. \<^verbatim>\<open>jwk.ParseKey\<close> decides what parses, and it also parses
  PEM content that is not a private key, such as a public key: then \<^verbatim>\<open>Build\<close> fails at its
  type assertion. What holds, for a builder configured for import (the import options
  set, the new-key options not): \<^verbatim>\<open>Build\<close> fails with "cannot read private key" and the
  error of \<^verbatim>\<open>ReadFile\<close> when the file cannot be read; with "cannot parse private key" and
  the error of \<^verbatim>\<open>ParseKey\<close> when \<^verbatim>\<open>ParseKey\<close> refuses the content; and when the content parses
  to a key that is not an RSA private key it fails too, with "expected jwk.SymmetricKey,
  got" and the type of the key once the key has accepted \<^verbatim>\<open>kid\<close> and \<^verbatim>\<open>use\<close>. In all these
  cases \<^verbatim>\<open>Build\<close> returns no configuration and leaves the store as it was.
\<close>

theorem Build_import_errors:
  assumes "deref h (config b) = Some (a, c)"
    and "newPkOpts c = None" and "importPkOpts c = Some opts"
  shows "(ioutil_ReadFile env (privateKeyPemPath opts) = Inl err \<longrightarrow>
            Build env b h =
              Inr ((None,
                    Some (''cannot import private key cannot read private key '' @ err)), h)) \<and>
         (ioutil_ReadFile env (privateKeyPemPath opts) = Inr keyData \<longrightarrow>
          jwk_ParseKey env keyData = Inl err \<longrightarrow>
            Build env b h =
              Inr ((None,
                    Some (''cannot import private key cannot parse private key '' @ err)), h)) \<and>
         (ioutil_ReadFile env (privateKeyPemPath opts) = Inr keyData \<longrightarrow>
          jwk_ParseKey env keyData = Inr k \<longrightarrow> \<not> RSAPrivateKey k \<longrightarrow>
            (\<exists>e. Build env b h = Inr ((None, Some e), h)) \<and>
            (Set_error k jwk_KeyIDKey (Str (ImportKeyOptions.keyId opts)) = None \<longrightarrow>
             Set_error k jwk_KeyUsageKey (Str KeyUsageAsSignature) = None \<longrightarrow>
               Build env b h =
                 Inr ((None, Some (''expected jwk.SymmetricKey, got '' @ GoType k)), h)))"
proof (intro conjI impI)
  assume "ioutil_ReadFile env (privateKeyPemPath opts) = Inl err"
  with assms show "Build env b h =
      Inr ((None, Some (''cannot import private key cannot read private key '' @ err)), h)"
    by (simp add: Build_def Build_generate_def Build_import_def importPrivateKey_def)
next
  assume "ioutil_ReadFile env (privateKeyPemPath opts) = Inr keyData"
    and "jwk_ParseKey env keyData = Inl err"
  with assms show "Build env b h =
      Inr ((None, Some (''cannot import private key cannot parse private key '' @ err)), h)"
    by (simp add: Build_def Build_generate_def Build_import_def importPrivateKey_def)
next
  assume r: "ioutil_ReadFile env (privateKeyPemPath opts) = Inr keyData"
    and p: "jwk_ParseKey env keyData = Inr k" and n: "\<not> RSAPrivateKey k"
  from assms r p have f: "Build env b h = Build_finish a c h (Some k, Some (ImportOpts opts))"
    by (simp add: Build_def Build_generate_def Build_import_def importPrivateKey_def)
  from n show "\<exists>e. Build env b h = Inr ((None, Some e), h)"
    unfolding f by (simp add: Build_finish_def Set_def split: option.splits)
next
  assume r: "ioutil_ReadFile env (privateKeyPemPath opts) = Inr keyData"
    and p: "jwk_ParseKey env keyData = Inr k" and n: "\<not> RSAPrivateKey k"
    and s1: "Set_error k jwk_KeyIDKey (Str (ImportKeyOptions.keyId opts)) = None"
    and s2: "Set_error k jwk_KeyUsageKey (Str KeyUsageAsSignature) = None"
  from assms r p have f: "Build env b h = Build_finish a c h (Some k, Some (ImportOpts opts))"
    by (simp add: Build_def Build_generate_def Build_import_def importPrivateKey_def)
  from n s1 s2 show "Build env b h =
      Inr ((None, Some (''expected jwk.SymmetricKey, got '' @ GoType k)), h)"
    unfolding f by (simp add: Build_finish_def Set_def)
qed

theorem Build_import_errors_witness:
  "ioutil_ReadFile fixture_env ''missing.pem'' =
     Inl ''open missing.pem: no such file or directory'' \<and>
   Build fixture_env new_builder
     (heap_after [Call_WithPath ''missing.pem'', Call_Import_WithKeyId ''k'']) =
     Inr ((None,
           Some (''cannot import private key cannot read private key '' @
                 ''open missing.pem: no such file or directory'')),
          heap_after [Call_WithPath ''missing.pem'', Call_Import_WithKeyId ''k'']) \<and>
   ioutil_ReadFile fixture_env ''notes.txt'' = Inr [0x68, 0x69] \<and>
   jwk_ParseKey fixture_env [0x68, 0x69] = Inl ''failed to parse PEM encoded key'' \<and>
   Build fixture_env new_builder
     (heap_after [Call_WithPath ''notes.txt'', Call_Import_WithKeyId ''k'']) =
     Inr ((None,
           Some (''cannot import private key cannot parse private key '' @
                 ''failed to parse PEM encoded key'')),
          heap_after [Call_WithPath ''notes.txt'', Call_Import_WithKeyId ''k'']) \<and>
   ioutil_ReadFile fixture_env_public ''public.pem'' = Inr fixture_public_pem \<and>
   jwk_ParseKey fixture_env_public fixture_public_pem = Inr fixture_public_key \<and>
   \<not> RSAPrivateKey fixture_public_key \<and>
   Build fixture_env_public new_builder
     (heap_after [Call_WithPath ''public.pem'', Call_Import_WithKeyId ''k'']) =
     Inr ((None, Some (''expected jwk.SymmetricKey, got '' @ GoType fixture_public_key)),
          heap_after [Call_WithPath ''public.pem'', Call_Import_WithKeyId ''k''])"
proof -
  let ?m = "\<lparr>ImportKeyOptions.keyId = ''k'', privateKeyPemPath = ''missing.pem''\<rparr>"
  let ?n = "\<lparr>ImportKeyOptions.keyId = ''k'', privateKeyPemPath = ''notes.txt''\<rparr>"
  let ?p = "\<lparr>ImportKeyOptions.keyId = ''k'', privateKeyPemPath = ''public.pem''\<rparr>"
  have dm: "deref (heap_after [Call_WithPath ''missing.pem'', Call_Import_WithKeyId ''k''])
      (config new_builder) = Some (0, \<lparr>key = None, newPkOpts = None, importPkOpts = Some ?m\<rparr>)"
    unfolding missing_heap by (simp add: new_builder_def NewConfigBuilder_def deref_def)
  have dn: "deref (heap_after [Call_WithPath ''notes.txt'', Call_Import_WithKeyId ''k''])
      (config new_builder) = Some (0, \<lparr>key = None, newPkOpts = None, importPkOpts = Some ?n\<rparr>)"
    unfolding notes_heap by (simp add: new_builder_def NewConfigBuilder_def deref_def)
  have dp: "deref (heap_after [Call_WithPath ''public.pem'', Call_Import_WithKeyId ''k''])
      (config new_builder) = Some (0, \<lparr>key = None, newPkOpts = None, importPkOpts = Some ?p\<rparr>)"
    unfolding public_heap by (simp add: new_builder_def NewConfigBuilder_def deref_def)
  have n1: "newPkOpts \<lparr>key = None, newPkOpts = None, importPkOpts = Some ?m\<rparr> = None"
    and n2: "newPkOpts \<lparr>key = None, newPkOpts = None, importPkOpts = Some ?n\<rparr> = None"
    and n3: "newPkOpts \<lparr>key = None, newPkOpts = None, importPkOpts = Some ?p\<rparr> = None"
    and i1: "importPkOpts \<lparr>key = None, newPkOpts = None, importPkOpts = Some ?m\<rparr> = Some ?m"
    and i2: "importPkOpts \<lparr>key = None, newPkOpts = None, importPkOpts = Some ?n\<rparr> = Some ?n"
    and i3: "importPkOpts \<lparr>key = None, newPkOpts = None, importPkOpts = Some ?p\<rparr> = Some ?p"
    by simp_all
  have rm: "ioutil_ReadFile fixture_env (privateKeyPemPath ?m) =
      Inl ''open missing.pem: no such file or directory''"
    by (simp add: fixture_env_def)
  have rn: "ioutil_ReadFile fixture_env (privateKeyPemPath ?n) = Inr [0x68, 0x69]"
    by (simp add: fixture_env_def)
  have pn: "jwk_ParseKey fixture_env [0x68, 0x69] = Inl ''failed to parse PEM encoded key''"
    by (simp add: fixture_env_def fixture_pem_def)
  have rp: "ioutil_ReadFile fixture_env_public (privateKeyPemPath ?p) = Inr fixture_public_pem"
    by (simp add: fixture_env_public_def)
  have pp: "jwk_ParseKey fixture_env_public fixture_public_pem = Inr fixture_public_key"
    by (simp add: fixture_env_public_def)
  have np: "\<not> RSAPrivateKey fixture_public_key"
    by (simp add: fixture_public_key_def)
  have s1: "Set_error fixture_public_key jwk_KeyIDKey (Str (ImportKeyOptions.keyId ?p)) = None"
    and s2: "Set_error fixture_public_key jwk_KeyUsageKey (Str KeyUsageAsSignature) = None"
    by (simp_all add: fixture_public_key_def)
  note a = Build_import_errors [OF dm n1 i1, of fixture_env, THEN conjunct1, THEN mp, OF rm]
  note b = Build_import_errors [OF dn n2 i2, of fixture_env, THEN conjunct2, THEN conjunct1,
      THEN mp, THEN mp, OF rn pn]
  note c = Build_import_errors [OF dp n3 i3, of fixture_env_public, THEN conjunct2,
      THEN conjunct2, THEN mp, THEN mp, THEN mp, OF rp pp np, THEN conjunct2, THEN mp, THEN mp,
      OF s1 s2]
  from rm rn rp have rm': "ioutil_ReadFile fixture_env ''missing.pem'' =
      Inl ''open missing.pem: no such file or directory''"
    and rn': "ioutil_ReadFile fixture_env ''notes.txt'' = Inr [0x68, 0x69]"
    and rp': "ioutil_ReadFile fixture_env_public ''public.pem'' = Inr fixture_public_pem"
    by simp_all
  from rm' a rn' pn b rp' pp np c show ?thesis by (intro conjI)
qed

text \<open>
  The counterexample to C6 as stated: the file \<^verbatim>\<open>public.pem\<close> holds a PEM public key, so
  its content is not a PEM-encoded private key. \<^verbatim>\<open>ParseKey\<close> parses it, and \<^verbatim>\<open>Build\<close> fails
  with the error of its type assertion, not with a parse error.
\<close>

theorem Build_import_public_key:
  "ioutil_ReadFile fixture_env_public ''public.pem'' = Inr fixture_public_pem \<and>
   jwk_ParseKey fixture_env_public fixture_public_pem = Inr fixture_public_key \<and>
   RSAPrivateKey fixture_public_key = False \<and>
   Build fixture_env_public new_builder
     (heap_after [Call_WithPath ''public.pem'', Call_Import_WithKeyId ''k'']) =
     Inr ((None, Some ''expected jwk.SymmetricKey, got *jwk.rsaPublicKey''),
          heap_after [Call_WithPath ''public.pem'', Call_Import_WithKeyId ''k''])"
proof -
  have 1: "ioutil_ReadFile fixture_env_public ''public.pem'' = Inr fixture_public_pem"
    by (simp add: fixture_env_public_def)
  have 2: "jwk_ParseKey fixture_env_public fixture_public_pem = Inr fixture_public_key"
    by (simp add: fixture_env_public_def)
  have 3: "RSAPrivateKey fixture_public_key = False"
    by (simp add: fixture_public_key_def)
  have 4: "Build fixture_env_public new_builder
     (heap_after [Call_WithPath ''public.pem'', Call_Import_WithKeyId ''k'']) =
     Inr ((None, Some ''expected jwk.SymmetricKey, got *jwk.rsaPublicKey''),
          heap_after [Call_WithPath ''public.pem'', Call_Import_WithKeyId ''k''])"
    unfolding public_heap
    by (simp add: Build_defs new_builder_def NewConfigBuilder_def deref_def
        fixture_env_public_def fixture_env_def fixture_public_key_def)
  from 1 2 3 4 show ?thesis by (intro conjI)
qed

subsection \<open>C7: the exponent 65537 and the document of the fixed key\<close>

text \<open>
  C7: for a key whose public exponent is 65537, held as the big-endian bytes
  \<^verbatim>\<open>0x01 0x00 0x01\<close>, the field \<^verbatim>\<open>e\<close> of the handler's entry is \<^verbatim>\<open>AQAB\<close>; and for a key of type
  \<^verbatim>\<open>RSA\<close> with use \<^verbatim>\<open>sig\<close> and key id \<^verbatim>\<open>my-id\<close> the body is, byte for byte, the document
  of the specification with the encoded modulus in the field \<^verbatim>\<open>n\<close>. The string encoder
  of \<^verbatim>\<open>encoding/json\<close> is the parameter \<open>quote\<close>: it is taken to write a string made of
  letters, digits, \<^verbatim>\<open>-\<close> and \<^verbatim>\<open>_\<close> between double quotes as it is.
\<close>

theorem Jkws_exponent_65537:
  assumes quote: "\<And>s. set s \<subseteq> set encodeURL \<Longrightarrow> quote s = CHR 0x22 # s @ [CHR 0x22]"
    and "key cfg = Some k"
    and "PublicKey k = Inr p"
    and "Get k ''e'' = Some (Bytes [0x01, 0x00, 0x01])"
    and "Get k ''n'' = Some (Bytes n)"
  shows \<open>snd (Jkws cfg ctx) =
      Inr (JSON 200 (Keys [\<lparr>KeyTypeKey = KeyType_String p, AlgorithmKey = ''RS256'',
        PubKeyExponentKey = ''AQAB'', PubKeyModulusKey = EncodeToString n,
        KeyUsageKey = KeyUsage k, KeyIDKey = KeyID k\<rparr>])) \<and>
     (KeyType_String p = ''RSA'' \<and> KeyUsage k = ''sig'' \<and> KeyID k = ''my-id'' \<longrightarrow>
      map_sum id (body quote) (snd (Jkws cfg ctx)) =
        Inr (''{"keys":[{"kty":"RSA","alg":"RS256","e":"AQAB","n":"'' @ EncodeToString n @
             ''","use":"sig","kid":"my-id"}]}''))\<close>
proof -
  have r: "snd (Jkws cfg ctx) =
      Inr (JSON 200 (Keys [\<lparr>KeyTypeKey = KeyType_String p, AlgorithmKey = ''RS256'',
        PubKeyExponentKey = ''AQAB'', PubKeyModulusKey = EncodeToString n,
        KeyUsageKey = KeyUsage k, KeyIDKey = KeyID k\<rparr>]))"
    using assms(2-5) by (simp add: Jkws_def jwa_RS256_String_def AQAB)
  have q: "quote s = CHR 0x22 # s @ [CHR 0x22]"
    if "s \<in> {''keys'', ''RSA'', ''RS256'', ''AQAB'', ''sig'', ''my-id''}" for s
    by (rule quote) (use that in \<open>auto simp add: encodeURL_def\<close>)
  have qn: "quote (EncodeToString n) = CHR 0x22 # EncodeToString n @ [CHR 0x22]"
    by (rule quote) (simp add: EncodeToString_def Encode_alphabet)
  show ?thesis
    unfolding r by (simp add: marshal_JkwsResponse_def q qn)
qed

text \<open>For the key of the README the body is the document that the README prints.\<close>

theorem Jkws_exponent_65537_witness:
  \<open>key readme_config = Some readme_key \<and>
   PublicKey readme_key = Inr \<lparr>KeyType_String = ''RSA''\<rparr> \<and>
   Get readme_key ''e'' = Some (Bytes [0x01, 0x00, 0x01]) \<and>
   Get readme_key ''n'' = Some (Bytes fixture_modulus) \<and>
   KeyUsage readme_key = ''sig'' \<and> KeyID readme_key = ''my-id'' \<and>
   map_sum id (body quote_plain) (snd (Jkws readme_config ())) =
     Inr ''{"keys":[{"kty":"RSA","alg":"RS256","e":"AQAB","n":"6DGyBMjYcC5nf7eHHCqvwdgjr5_6_AnMbV124jtszu62vnMHHSIkVP6e5FWEQRUWXYww2cu-PKV2cJ1PcSvIs-OTwSayJnrQThsK5PzEAsH8pEhAoC2Izlpv4oK7vJYoUulcWTLFq0TcC0GkIZ3rUUn2RRAq508A0FI-ep17PjU7yamZAHwlfZPQ6NEFOnabBUE-qCaquv1PmNXV-PLZhhwAxkuxcGiZCaflkNmH8mw7L79zQWVAVgyIS68OV7CnblbuNwCOOzuLmnEJD3pwCfMq7a22vW_HXfVWzRqehkfgvH2Dmakbfm17WzFaWo_a8AUaU8ojY8DK-YxV0pU0ow","use":"sig","kid":"my-id"}]}''\<close>
proof -
  have 1: "key readme_config = Some readme_key" by (simp add: readme_config_def)
  have \<open>map_sum id (body quote_plain) (snd (Jkws readme_config ())) =
        Inr (''{"keys":[{"kty":"RSA","alg":"RS256","e":"AQAB","n":"'' @
             EncodeToString fixture_modulus @ ''","use":"sig","kid":"my-id"}]}'')\<close>
    by (rule Jkws_exponent_65537 [of quote_plain, OF _ 1 readme_key_facts(1,2,3), of "()",
          THEN conjunct2, THEN mp])
      (simp_all add: quote_plain_def readme_key_facts(4,5))
  then have \<open>map_sum id (body quote_plain) (snd (Jkws readme_config ())) =
     Inr ''{"keys":[{"kty":"RSA","alg":"RS256","e":"AQAB","n":"6DGyBMjYcC5nf7eHHCqvwdgjr5_6_AnMbV124jtszu62vnMHHSIkVP6e5FWEQRUWXYww2cu-PKV2cJ1PcSvIs-OTwSayJnrQThsK5PzEAsH8pEhAoC2Izlpv4oK7vJYoUulcWTLFq0TcC0GkIZ3rUUn2RRAq508A0FI-ep17PjU7yamZAHwlfZPQ6NEFOnabBUE-qCaquv1PmNXV-PLZhhwAxkuxcGiZCaflkNmH8mw7L79zQWVAVgyIS68OV7CnblbuNwCOOzuLmnEJD3pwCfMq7a22vW_HXfVWzRqehkfgvH2Dmakbfm17WzFaWo_a8AUaU8ojY8DK-YxV0pU0ow","use":"sig","kid":"my-id"}]}''\<close>
    unfolding modulus_encoded by simp
  with 1 readme_key_facts show ?thesis by (intro conjI)
qed

subsection \<open>C8: decoding what the handler published\<close>

text \<open>
  C8: decoding \<^verbatim>\<open>EncodeToString(src)\<close> as unpadded base64url gives \<open>src\<close> back, for every
  byte sequence; so the strings \<^verbatim>\<open>e\<close> and \<^verbatim>\<open>n\<close> of the entry that the handler publishes
  decode to the byte strings that the key holds in its fields \<^verbatim>\<open>e\<close> and \<^verbatim>\<open>n\<close>.
\<close>

theorem EncodeToString_round_trip:
  "RawURLEncoding_DecodeString (EncodeToString src) = Some src \<and>
   (\<forall>cfg ctx k code r.
      key cfg = Some k \<longrightarrow> snd (Jkws cfg ctx) = Inr (JSON code (Keys [r])) \<longrightarrow>
      map_option Bytes (RawURLEncoding_DecodeString (PubKeyExponentKey r)) = Get k ''e'' \<and>
      map_option Bytes (RawURLEncoding_DecodeString (PubKeyModulusKey r)) = Get k ''n'')"
proof (intro conjI allI impI)
  show "RawURLEncoding_DecodeString (EncodeToString src) = Some src"
    by (simp add: EncodeToString_def Decode_Encode)
next
  fix cfg :: Config and ctx :: 'a and k code r
  assume k: "key cfg = Some k" and j: "snd (Jkws cfg ctx) = Inr (JSON code (Keys [r]))"
  from j k obtain e n where e: "Get k ''e'' = Some (Bytes e)" and n: "Get k ''n'' = Some (Bytes n)"
    and r: "PubKeyExponentKey r = EncodeToString e" "PubKeyModulusKey r = EncodeToString n"
    by (auto simp add: Jkws_def Let_def split: option.splits sum.splits any.splits)
  show "map_option Bytes (RawURLEncoding_DecodeString (PubKeyExponentKey r)) = Get k ''e''"
    by (simp add: e r EncodeToString_def Decode_Encode)
  show "map_option Bytes (RawURLEncoding_DecodeString (PubKeyModulusKey r)) = Get k ''n''"
    by (simp add: n r EncodeToString_def Decode_Encode)
qed

theorem EncodeToString_round_trip_witness:
  "RawURLEncoding_DecodeString (EncodeToString fixture_modulus) = Some fixture_modulus \<and>
   key readme_config = Some readme_key \<and>
   snd (Jkws readme_config ()) = Inr (JSON 200 (Keys [readme_entry])) \<and>
   map_option Bytes (RawURLEncoding_DecodeString (PubKeyExponentKey readme_entry)) =
     Get readme_key ''e'' \<and>
   map_option Bytes (RawURLEncoding_DecodeString (PubKeyModulusKey readme_entry)) =
     Get readme_key ''n''"
proof -
  have 1: "key readme_config = Some readme_key" by (simp add: readme_config_def)
  have 2: "snd (Jkws readme_config ()) = Inr (JSON 200 (Keys [readme_entry]))"
    by (simp add: Jkws_readme_config)
  note t = EncodeToString_round_trip [of fixture_modulus]
  note a = t [THEN conjunct1]
  note b = t [THEN conjunct2, rule_format, OF 1 2]
  from a 1 2 b [THEN conjunct1] b [THEN conjunct2] show ?thesis by (intro conjI)
qed

subsection \<open>C9: the handler is deterministic and keeps its configuration\<close>

text \<open>
  C9: every call of the handler leaves the captured configuration as it was, and the
  calls that a server makes for any sequence of requests all give the result of one
  call, so the same bytes, whatever the requests are.
\<close>

theorem serve_same:
  "serve cfg cs = (cfg, replicate (length cs) (snd (Jkws cfg c))) \<and>
   map (map_sum id (body quote)) (snd (serve cfg cs)) =
     replicate (length cs) (map_sum id (body quote) (snd (Jkws cfg c)))"
proof -
  have 1: "serve cfg cs = (cfg, replicate (length cs) (snd (Jkws cfg c)))"
  proof (induction cs)
    case Nil
    show ?case by simp
  next
    case (Cons x xs)
    have "Jkws cfg x = (cfg, snd (Jkws cfg c))"
      using fst_Jkws [of cfg x] Jkws_ctx [of cfg x c] by (metis prod.collapse)
    with Cons show ?case by simp
  qed
  then show ?thesis by simp
qed

theorem serve_same_witness:
  "serve readme_config [(), (), ()] =
     (readme_config, replicate (length [(), (), ()]) (snd (Jkws readme_config ()))) \<and>
   map (map_sum id (body quote_plain)) (snd (serve readme_config [(), (), ()])) =
     replicate (length [(), (), ()])
       (map_sum id (body quote_plain) (snd (Jkws readme_config ())))"
  by (rule serve_same)

subsection \<open>C10: an error of \<^verbatim>\<open>Build\<close> installs nothing\<close>

text \<open>
  C10: whenever \<^verbatim>\<open>Build\<close> returns an error, the configuration it returns is \<^verbatim>\<open>nil\<close> and
  the store is as it was before the call: \<^verbatim>\<open>b.config.key\<close> has not been assigned.
\<close>

theorem Build_error_keeps_heap:
  assumes "Build env b h = Inr ((ret, Some err), h')"
  shows "ret = None \<and> h' = h"
  using assms unfolding Build_def Build_finish_def
  by (auto split: option.splits sum.splits prod.splits if_splits)

theorem Build_error_keeps_heap_witness:
  "Build fixture_env new_builder
     (heap_after [Call_WithPath ''missing.pem'', Call_Import_WithKeyId ''k'']) =
   Inr ((None,
         Some ''cannot import private key cannot read private key open missing.pem: no such file or directory''),
        heap_after [Call_WithPath ''missing.pem'', Call_Import_WithKeyId ''k'']) \<and>
   (None :: nat option) = None \<and>
   heap_after [Call_WithPath ''missing.pem'', Call_Import_WithKeyId ''k''] =
     heap_after [Call_WithPath ''missing.pem'', Call_Import_WithKeyId ''k'']"
proof -
  have 1: "Build fixture_env new_builder
     (heap_after [Call_WithPath ''missing.pem'', Call_Import_WithKeyId ''k'']) =
   Inr ((None,
         Some ''cannot import private key cannot read private key open missing.pem: no such file or directory''),
        heap_after [Call_WithPath ''missing.pem'', Call_Import_WithKeyId ''k''])"
    unfolding missing_heap
    by (simp add: Build_defs new_builder_def NewConfigBuilder_def deref_def fixture_env_def)
  from 1 Build_error_keeps_heap [OF 1] show ?thesis by (rule conjI)
qed

end
